theory Spec2Isabelle
  imports Complex_Main
begin

section \<open>Sentinel-2 burn severity script: a shallow embedding\<close>

text \<open>
  The theory embeds \<^verbatim>\<open>src/scripts/sentinel2_burn_severity_heatmap.js\<close>.
  Every function of the script is translated in the order of the source and keeps
  its name.
\<close>

subsection \<open>JavaScript numbers\<close>

text \<open>
  A JavaScript Number is a finite value, one of the two infinities, or NaN. The script
  divides without guarding the denominator, so the non-finite values are part of the
  model. Finite values are exact reals: the rounding of binary64 arithmetic, its
  overflow to an infinity and the sign of zero are not modelled, so a finite result
  of the model is the result of the script as long as no operation overflows. A zero denominator
  counts as \<open>+0\<close>; in the script every zero denominator that meets a non-zero
  numerator is a sum \<open>x + (-x)\<close>, a square root or a count, and all three are \<open>+0\<close>.
\<close>

datatype jsnum = Fin real | PInf | NInf | NaN

fun jneg :: "jsnum \<Rightarrow> jsnum" where
  "jneg (Fin a) = Fin (- a)"
| "jneg PInf = NInf"
| "jneg NInf = PInf"
| "jneg NaN = NaN"

text \<open>\<^verbatim>\<open>x + y\<close>\<close>

fun jadd :: "jsnum \<Rightarrow> jsnum \<Rightarrow> jsnum" where
  "jadd NaN _ = NaN"
| "jadd _ NaN = NaN"
| "jadd (Fin a) (Fin b) = Fin (a + b)"
| "jadd PInf NInf = NaN"
| "jadd NInf PInf = NaN"
| "jadd PInf _ = PInf"
| "jadd _ PInf = PInf"
| "jadd NInf _ = NInf"
| "jadd _ NInf = NInf"

text \<open>\<^verbatim>\<open>x - y\<close>\<close>

definition jsub :: "jsnum \<Rightarrow> jsnum \<Rightarrow> jsnum" where
  "jsub x y = jadd x (jneg y)"

text \<open>The sign of a number that is not NaN, as \<open>-1\<close>, \<open>0\<close> or \<open>1\<close>.\<close>

fun jsgn :: "jsnum \<Rightarrow> int" where
  "jsgn (Fin a) = (if a < 0 then - 1 else if a = 0 then 0 else 1)"
| "jsgn PInf = 1"
| "jsgn NInf = - 1"
| "jsgn NaN = 0"

text \<open>\<^verbatim>\<open>x * y\<close>: an infinity times zero is NaN.\<close>

fun jmul :: "jsnum \<Rightarrow> jsnum \<Rightarrow> jsnum" where
  "jmul NaN _ = NaN"
| "jmul _ NaN = NaN"
| "jmul (Fin a) (Fin b) = Fin (a * b)"
| "jmul x y =
     (if jsgn x * jsgn y = 0 then NaN else if jsgn x * jsgn y < 0 then NInf else PInf)"

text \<open>
  \<^verbatim>\<open>x / y\<close>: a finite non-zero number over zero is an infinity, zero over zero
  and an infinity over an infinity are NaN, a finite number over an infinity is zero.
\<close>

fun jdiv :: "jsnum \<Rightarrow> jsnum \<Rightarrow> jsnum" where
  "jdiv NaN _ = NaN"
| "jdiv _ NaN = NaN"
| "jdiv (Fin a) (Fin b) =
     (if b \<noteq> 0 then Fin (a / b)
      else if 0 < a then PInf else if a < 0 then NInf else NaN)"
| "jdiv (Fin a) _ = Fin 0"
| "jdiv PInf (Fin b) = (if b < 0 then NInf else PInf)"
| "jdiv NInf (Fin b) = (if b < 0 then PInf else NInf)"
| "jdiv _ _ = NaN"

text \<open>\<^verbatim>\<open>x <= y\<close>: false as soon as one side is NaN.\<close>

fun jle :: "jsnum \<Rightarrow> jsnum \<Rightarrow> bool" where
  "jle NaN _ = False"
| "jle _ NaN = False"
| "jle (Fin a) (Fin b) = (a \<le> b)"
| "jle NInf _ = True"
| "jle _ PInf = True"
| "jle _ _ = False"

text \<open>\<^verbatim>\<open>Math.abs\<close>, \<^verbatim>\<open>Math.sqrt\<close>, \<^verbatim>\<open>Math.round\<close> (halves go up),
  \<^verbatim>\<open>Math.max\<close>, \<^verbatim>\<open>Math.min\<close> (NaN if an argument is NaN) and
  \<^verbatim>\<open>Math.pow(x, 2)\<close>.\<close>

fun Math_abs :: "jsnum \<Rightarrow> jsnum" where
  "Math_abs (Fin a) = Fin \<bar>a\<bar>"
| "Math_abs PInf = PInf"
| "Math_abs NInf = PInf"
| "Math_abs NaN = NaN"

fun Math_sqrt :: "jsnum \<Rightarrow> jsnum" where
  "Math_sqrt (Fin a) = (if a < 0 then NaN else Fin (sqrt a))"
| "Math_sqrt PInf = PInf"
| "Math_sqrt NInf = NaN"
| "Math_sqrt NaN = NaN"

fun Math_round :: "jsnum \<Rightarrow> jsnum" where
  "Math_round (Fin a) = Fin (of_int \<lfloor>a + 1 / 2\<rfloor>)"
| "Math_round x = x"

definition Math_max :: "jsnum \<Rightarrow> jsnum \<Rightarrow> jsnum" where
  "Math_max x y = (if x = NaN \<or> y = NaN then NaN else if jle x y then y else x)"

definition Math_min :: "jsnum \<Rightarrow> jsnum \<Rightarrow> jsnum" where
  "Math_min x y = (if x = NaN \<or> y = NaN then NaN else if jle x y then x else y)"

fun Math_pow2 :: "jsnum \<Rightarrow> jsnum" where
  "Math_pow2 (Fin a) = Fin (a ^ 2)"
| "Math_pow2 PInf = PInf"
| "Math_pow2 NInf = PInf"
| "Math_pow2 NaN = NaN"

subsection \<open>Configuration constants\<close>

text \<open>
  Dates are the time values of the \<^verbatim>\<open>Date\<close> objects, in milliseconds since
  the epoch: \<^verbatim>\<open>new Date("2025-01-01")\<close> and \<^verbatim>\<open>new Date("2025-01-13")\<close>
  are midnight UTC of those days.
\<close>

definition msPerDay :: int where
  "msPerDay = 86400000"

definition fromDate :: int where
  "fromDate = 1735689600000"

definition toDate :: int where
  "toDate = 1736726400000"

definition excludedClasses :: "int list" where
  "excludedClasses = [0, 1, 3, 6, 7, 8, 9, 10, 11]"

record threshold =
  max_thr :: jsnum
  alpha_thr :: jsnum
  label_thr :: string

definition thresholds :: "threshold list" where
  "thresholds =
    [\<lparr>max_thr = Fin 0.1, alpha_thr = Fin 0.0, label_thr = ''Unburnt''\<rparr>,
     \<lparr>max_thr = Fin 0.27, alpha_thr = Fin 0.3, label_thr = ''Low severity''\<rparr>,
     \<lparr>max_thr = Fin 0.44, alpha_thr = Fin 0.5, label_thr = ''Moderate severity''\<rparr>,
     \<lparr>max_thr = Fin 0.66, alpha_thr = Fin 0.7, label_thr = ''Moderate-high severity''\<rparr>,
     \<lparr>max_thr = PInf, alpha_thr = Fin 1.0, label_thr = ''High severity''\<rparr>]"

subsection \<open>Index calculator and relativizer\<close>

definition calculateNBR :: "jsnum \<Rightarrow> jsnum \<Rightarrow> jsnum" where
  "calculateNBR NIR SWIR = jdiv (jsub NIR SWIR) (jadd NIR SWIR)"

definition calculateRBR :: "jsnum \<Rightarrow> jsnum \<Rightarrow> jsnum" where
  "calculateRBR dNBR preFireNBR = jdiv dNBR (Math_sqrt (Math_abs preFireNBR))"

subsection \<open>Spatial smoother\<close>

text \<open>
  The inner loop of \<^verbatim>\<open>smoothData\<close>: \<open>j\<close> runs from its start value up to
  \<open>hi = i + Math.floor(windowSize / 2)\<close>, and the pair \<open>(sum_v, count)\<close>
  holds the variables \<^verbatim>\<open>sum\<close> and \<^verbatim>\<open>count\<close>. The window size is an integer, so that \<^verbatim>\<open>Math.floor(windowSize / 2)\<close> is
  \<open>windowSize div 2\<close>.
\<close>

function smoothInner :: "jsnum list \<Rightarrow> int \<Rightarrow> int \<Rightarrow> jsnum \<times> nat \<Rightarrow> jsnum \<times> nat" where
  "smoothInner dataset hi j (sum_v, count) =
     (if j \<le> hi then
        smoothInner dataset hi (j + 1)
          (if 0 \<le> j \<and> j < int (length dataset)
           then (jadd sum_v (dataset ! nat j), count + 1)
           else (sum_v, count))
      else (sum_v, count))"
  by pat_completeness auto
termination
  by (relation "measure (\<lambda>(dataset, hi, j, acc). nat (hi + 1 - j))") auto

text \<open>The outer loop: \<open>i\<close> runs over the indices and each mean is pushed.\<close>

function smoothOuter :: "jsnum list \<Rightarrow> int \<Rightarrow> nat \<Rightarrow> jsnum list \<Rightarrow> jsnum list" where
  "smoothOuter dataset windowSize i smoothedValues =
     (if i < length dataset then
        (let (sum_v, count) =
               smoothInner dataset (int i + windowSize div 2) (int i - windowSize div 2)
                 (Fin 0, 0)
         in smoothOuter dataset windowSize (i + 1)
              (smoothedValues @ [jdiv sum_v (Fin (real count))]))
      else smoothedValues)"
  by pat_completeness auto
termination
  by (relation "measure (\<lambda>(dataset, w, i, acc). length dataset - i)") auto

declare smoothInner.simps [simp del] smoothOuter.simps [simp del]

definition smoothData :: "jsnum list \<Rightarrow> int \<Rightarrow> jsnum list" where
  "smoothData dataset windowSize = smoothOuter dataset windowSize 0 []"

subsection \<open>Scene selector\<close>

text \<open>
  \<^verbatim>\<open>preProcessScenes\<close> assigns to \<^verbatim>\<open>collections.scenes.orbits\<close>, so the
  model returns the value of the call together with the final state of the object
  it was given. The other fields of \<^verbatim>\<open>collections\<close> and of
  \<^verbatim>\<open>collections.scenes\<close> are the extension parts of the records.
  \<^verbatim>\<open>Array.prototype.sort\<close> is stable, as is \<^const>\<open>sort_key\<close>.
\<close>

record orbit =
  dateFrom :: int
  dateTo :: int

record scenes =
  orbits :: "orbit list"

record 's collections =
  scenes :: "'s scenes_scheme"

datatype ('s, 'c) returned =
  EmptyArray
| Collections "('s, 'c) collections_scheme"

definition preProcessScenes ::
  "('s, 'c) collections_scheme \<Rightarrow> ('s, 'c) returned \<times> ('s, 'c) collections_scheme" where
  "preProcessScenes collections =
     (let c1 = collections\<lparr>scenes := (scenes collections)\<lparr>orbits :=
                 filter (\<lambda>orbit. fromDate \<le> dateFrom orbit \<and> dateTo orbit \<le> toDate)
                   (orbits (scenes collections))\<rparr>\<rparr>;
          c2 = c1\<lparr>scenes := (scenes c1)\<lparr>orbits := sort_key dateFrom (orbits (scenes c1))\<rparr>\<rparr>
      in if 2 \<le> length (orbits (scenes c2)) then
           (let c3 = c2\<lparr>scenes := (scenes c2)\<lparr>orbits :=
                       [orbits (scenes c2) ! 0,
                        orbits (scenes c2) ! (length (orbits (scenes c2)) - 1)]\<rparr>\<rparr>
            in (Collections c3, c3))
         else (EmptyArray, c2))"

subsection \<open>Colour and alpha mapper\<close>

definition getHeatmapColor :: "jsnum \<Rightarrow> jsnum list" where
  "getHeatmapColor RBR =
     (let red = Math_min (Fin 255) (Math_max (Fin 0) (Math_round (jmul RBR (Fin 255))));
          green = Math_min (Fin 255)
                    (Math_max (Fin 0) (Math_round (jmul (jsub (Fin 1) RBR) (Fin 255))));
          blue = Fin 0
      in [red, green, blue])"

definition adjustTransparency :: "jsnum \<Rightarrow> jsnum" where
  "adjustTransparency alpha = Math_pow2 alpha"

subsection \<open>Pixel evaluator\<close>

record sample =
  B08 :: jsnum
  B12 :: jsnum
  SCL :: int
  dataMask :: int

text \<open>
  \<^verbatim>\<open>thresholds.some(...)\<close> with its callback: the scan stops at the first row
  with \<^verbatim>\<open>RBR <= threshold.max\<close> and assigns that row's alpha; \<open>alpha\<close> is the
  variable the callback writes.
\<close>

fun some_threshold :: "jsnum \<Rightarrow> threshold list \<Rightarrow> jsnum \<Rightarrow> jsnum" where
  "some_threshold RBR [] alpha = alpha"
| "some_threshold RBR (threshold # rest) alpha =
     (if jle RBR (max_thr threshold) then alpha_thr threshold
      else some_threshold RBR rest alpha)"

definition evaluatePixel :: "sample list \<Rightarrow> jsnum list" where
  "evaluatePixel samples =
     (if length samples \<noteq> 2 then [Fin 0, Fin 0, Fin 0, Fin 0]
      else
        (let firstSample = samples ! 0;
             lastSample = samples ! 1;
             isExcludedPreFire = (SCL firstSample \<in> set excludedClasses);
             isExcludedPostFire = (SCL lastSample \<in> set excludedClasses)
         in if isExcludedPreFire \<or> isExcludedPostFire then [Fin 0, Fin 0, Fin 0, Fin 0]
            else
              (let rawNBRPreFire = calculateNBR (B08 firstSample) (B12 firstSample);
                   rawNBRPostFire = calculateNBR (B08 lastSample) (B12 lastSample);
                   smoothedPreFire = smoothData [rawNBRPreFire] 3;
                   smoothedPostFire = smoothData [rawNBRPostFire] 3;
                   firstNBR = smoothedPreFire ! 0;
                   lastNBR = smoothedPostFire ! 0;
                   dNBR = jsub firstNBR lastNBR;
                   RBR = calculateRBR dNBR firstNBR;
                   rgbColor = getHeatmapColor RBR;
                   alpha = some_threshold RBR thresholds (Fin 0.0);
                   alpha = adjustTransparency alpha
               in rgbColor @ [alpha])))"

text \<open>
  The locals \<open>firstNBR\<close>/\<open>lastNBR\<close>, \<open>dNBR\<close> and \<open>RBR\<close> of
  \<^verbatim>\<open>evaluatePixel\<close>, as functions of the two samples.
\<close>

definition pixelNBR :: "sample \<Rightarrow> jsnum" where
  "pixelNBR s = smoothData [calculateNBR (B08 s) (B12 s)] 3 ! 0"

definition pixelDNBR :: "sample \<Rightarrow> sample \<Rightarrow> jsnum" where
  "pixelDNBR firstSample lastSample = jsub (pixelNBR firstSample) (pixelNBR lastSample)"

definition pixelRBR :: "sample \<Rightarrow> sample \<Rightarrow> jsnum" where
  "pixelRBR firstSample lastSample =
     calculateRBR (pixelDNBR firstSample lastSample) (pixelNBR firstSample)"

subsection \<open>Inputs of the worked examples\<close>

text \<open>
  The two samples of the end-to-end example: pre-fire NIR 0.5 and SWIR 0.1, post-fire
  NIR 0.2 and SWIR 0.3, with any SCL code and data mask.
\<close>

definition examplePre :: "int \<Rightarrow> int \<Rightarrow> sample" where
  "examplePre scl m = \<lparr>B08 = Fin 0.5, B12 = Fin 0.1, SCL = scl, dataMask = m\<rparr>"

definition examplePost :: "int \<Rightarrow> int \<Rightarrow> sample" where
  "examplePost scl m = \<lparr>B08 = Fin 0.2, B12 = Fin 0.3, SCL = scl, dataMask = m\<rparr>"

subsection \<open>Well-formed pixel outputs\<close>

text \<open>
  The shape the specification gives to a pixel output: three colour channels that are
  integers in \<open>[0,255]\<close> and an opacity in \<open>[0,1]\<close>.
\<close>

fun colorChannel :: "jsnum \<Rightarrow> bool" where
  "colorChannel (Fin a) = (0 \<le> a \<and> a \<le> 255 \<and> a = of_int \<lfloor>a\<rfloor>)"
| "colorChannel _ = False"

fun unitAlpha :: "jsnum \<Rightarrow> bool" where
  "unitAlpha (Fin a) = (0 \<le> a \<and> a \<le> 1)"
| "unitAlpha _ = False"

fun pixelOutput :: "jsnum list \<Rightarrow> bool" where
  "pixelOutput [red, green, blue, alpha] =
     (colorChannel red \<and> colorChannel green \<and> colorChannel blue \<and> unitAlpha alpha)"
| "pixelOutput _ = False"

text \<open>
  An unchanged pixel whose NIR and SWIR reflectances coincide in both scenes: both
  indices are zero.
\<close>

definition flatPre :: sample where
  "flatPre = \<lparr>B08 = Fin 0.3, B12 = Fin 0.3, SCL = 4, dataMask = 1\<rparr>"

definition flatPost :: sample where
  "flatPost = \<lparr>B08 = Fin 0.2, B12 = Fin 0.2, SCL = 4, dataMask = 1\<rparr>"

subsection \<open>The window of the smoother\<close>

text \<open>
  The positions that the inner loop of \<^verbatim>\<open>smoothData\<close> visits for the output
  position \<open>i\<close> and passes its bounds test, in the order of the loop: those of
  \<open>i - h, \<dots>, i + h\<close> that lie in a sequence of length \<open>n\<close>.
\<close>

definition windowIndices :: "nat \<Rightarrow> nat \<Rightarrow> int \<Rightarrow> int list" where
  "windowIndices n i h = filter (\<lambda>k. 0 \<le> k \<and> k < int n) [int i - h..int i + h]"

subsection \<open>Scene collections of the worked examples\<close>

text \<open>
  An orbit of day \<open>d\<close> of January 2025 spans that whole day. The first collection
  holds the orbits of January 2, 5, 10 and 20; the second holds two orbits of which
  only one lies in the analysis window.
\<close>

definition januaryOrbit :: "int \<Rightarrow> orbit" where
  "januaryOrbit d =
     \<lparr>dateFrom = fromDate + (d - 1) * msPerDay,
      dateTo = fromDate + (d - 1) * msPerDay + (msPerDay - 1)\<rparr>"

definition exampleCollections :: "unit collections" where
  "exampleCollections =
     \<lparr>scenes = \<lparr>orbits = [januaryOrbit 2, januaryOrbit 5, januaryOrbit 10, januaryOrbit 20]\<rparr>\<rparr>"

definition sparseCollections :: "unit collections" where
  "sparseCollections = \<lparr>scenes = \<lparr>orbits = [januaryOrbit 20, januaryOrbit 5]\<rparr>\<rparr>"

subsection \<open>The selection as the specification words it\<close>

text \<open>
  Step 1 of the Scene Selector of the specification retains the scenes with
  \<open>dateFrom \<ge> fromDate\<close> and \<open>dateTo \<le> toDate\<close>; step 2 sorts the retained scenes
  ascending by \<open>dateFrom\<close>.
\<close>

definition retainedScenes :: "orbit list \<Rightarrow> orbit list" where
  "retainedScenes os = filter (\<lambda>orbit. dateFrom orbit \<ge> fromDate \<and> dateTo orbit \<le> toDate) os"

definition sortedScenes :: "orbit list \<Rightarrow> orbit list" where
  "sortedScenes os = sort_key dateFrom (retainedScenes os)"

section \<open>Properties\<close>

subsection \<open>The smoother on one element\<close>

lemma jadd_zero_left: "jadd (Fin 0) x = x"
  by (cases x) simp_all

lemma jdiv_one: "jdiv x (Fin 1) = x"
  by (cases x) simp_all

lemma smoothData_single: "smoothData [x] 3 = [x]"
proof -
  have "smoothInner [x] 1 (- 1) (Fin 0, 0) = (x, 1)"
    by (simp add: smoothInner.simps jadd_zero_left)
  then show ?thesis
    by (simp add: smoothData_def smoothOuter.simps jdiv_one)
qed

subsection \<open>The pixel evaluator in terms of its locals\<close>

lemma pixelNBR_raw: "pixelNBR s = calculateNBR (B08 s) (B12 s)"
  by (simp add: pixelNBR_def smoothData_single)

lemma evaluatePixel_pair:
  "evaluatePixel [f, l] =
     (if SCL f \<in> set excludedClasses \<or> SCL l \<in> set excludedClasses
      then [Fin 0, Fin 0, Fin 0, Fin 0]
      else getHeatmapColor (pixelRBR f l)
             @ [adjustTransparency (some_threshold (pixelRBR f l) thresholds (Fin 0))])"
  by (simp add: evaluatePixel_def Let_def pixelRBR_def pixelDNBR_def pixelNBR_def)

lemma length_two: "length xs = 2 \<Longrightarrow> \<exists>a b. xs = [a, b]"
  by (cases xs; cases "tl xs") auto

subsection \<open>Guards of the pixel evaluator\<close>

text \<open>
  Claim C2. The exclusion set is \<open>{0,1,3,6,7,8,9,10,11}\<close>. Whenever the number of
  samples is not 2, or one of the samples has its SCL code in the exclusion set, the
  output is \<open>(0,0,0,0)\<close>, whatever the reflectances of the samples are: no index
  arithmetic takes part in the result.
\<close>

theorem evaluatePixel_transparent:
  "set excludedClasses = {0, 1, 3, 6, 7, 8, 9, 10, 11} \<and>
   (length samples \<noteq> 2 \<or> (\<exists>s \<in> set samples. SCL s \<in> set excludedClasses)
      \<longrightarrow> evaluatePixel samples = [Fin 0, Fin 0, Fin 0, Fin 0])"
proof (intro conjI impI)
  show "set excludedClasses = {0, 1, 3, 6, 7, 8, 9, 10, 11}"
    by (simp add: excludedClasses_def)
next
  assume h: "length samples \<noteq> 2 \<or> (\<exists>s \<in> set samples. SCL s \<in> set excludedClasses)"
  show "evaluatePixel samples = [Fin 0, Fin 0, Fin 0, Fin 0]"
  proof (cases "length samples = 2")
    case False
    then show ?thesis by (simp add: evaluatePixel_def)
  next
    case True
    then obtain f l where fl: "samples = [f, l]"
      using length_two by blast
    with h have "SCL f \<in> set excludedClasses \<or> SCL l \<in> set excludedClasses"
      by auto
    then show ?thesis
      unfolding fl evaluatePixel_pair by simp
  qed
qed

theorem evaluatePixel_transparent_witness:
  "evaluatePixel [] = [Fin 0, Fin 0, Fin 0, Fin 0] \<and>
   evaluatePixel [\<lparr>B08 = Fin 0.5, B12 = Fin 0.1, SCL = 4, dataMask = 1\<rparr>,
                  \<lparr>B08 = Fin 0.2, B12 = Fin 0.3, SCL = 8, dataMask = 1\<rparr>]
     = [Fin 0, Fin 0, Fin 0, Fin 0]"
  using evaluatePixel_transparent [of "[]"]
    evaluatePixel_transparent
      [of "[\<lparr>B08 = Fin 0.5, B12 = Fin 0.1, SCL = 4, dataMask = 1\<rparr>,
            \<lparr>B08 = Fin 0.2, B12 = Fin 0.3, SCL = 8, dataMask = 1\<rparr>]"]
  by (simp add: excludedClasses_def)

subsection \<open>The data mask is never read\<close>

text \<open>
  Claim C10. Two sample lists of the same length that agree, position by position, on
  B08, B12 and SCL give the same output: the \<open>dataMask\<close> values have no influence.
\<close>

theorem evaluatePixel_ignores_dataMask:
  assumes "map (\<lambda>s. (B08 s, B12 s, SCL s)) xs = map (\<lambda>s. (B08 s, B12 s, SCL s)) ys"
  shows "evaluatePixel xs = evaluatePixel ys"
proof -
  from assms have len: "length xs = length ys"
    by (rule map_eq_imp_length_eq)
  show ?thesis
  proof (cases "length xs = 2")
    case False
    with len show ?thesis by (simp add: evaluatePixel_def)
  next
    case True
    then obtain a b where xs: "xs = [a, b]" using length_two by blast
    from True len obtain c d where ys: "ys = [c, d]" using length_two by metis
    from assms xs ys have eq: "B08 a = B08 c" "B12 a = B12 c" "SCL a = SCL c"
      "B08 b = B08 d" "B12 b = B12 d" "SCL b = SCL d"
      by simp_all
    have "pixelRBR a b = pixelRBR c d"
      by (simp add: pixelRBR_def pixelDNBR_def pixelNBR_def eq)
    then show ?thesis
      unfolding xs ys evaluatePixel_pair by (simp add: eq)
  qed
qed

theorem evaluatePixel_ignores_dataMask_witness:
  "evaluatePixel [\<lparr>B08 = Fin 0.5, B12 = Fin 0.1, SCL = 4, dataMask = 1\<rparr>,
                  \<lparr>B08 = Fin 0.2, B12 = Fin 0.3, SCL = 5, dataMask = 1\<rparr>]
   = evaluatePixel [\<lparr>B08 = Fin 0.5, B12 = Fin 0.1, SCL = 4, dataMask = 0\<rparr>,
                    \<lparr>B08 = Fin 0.2, B12 = Fin 0.3, SCL = 5, dataMask = 7\<rparr>]"
  using evaluatePixel_ignores_dataMask
    [of "[\<lparr>B08 = Fin 0.5, B12 = Fin 0.1, SCL = 4, dataMask = 1\<rparr>,
          \<lparr>B08 = Fin 0.2, B12 = Fin 0.3, SCL = 5, dataMask = 1\<rparr>]"
        "[\<lparr>B08 = Fin 0.5, B12 = Fin 0.1, SCL = 4, dataMask = 0\<rparr>,
          \<lparr>B08 = Fin 0.2, B12 = Fin 0.3, SCL = 5, dataMask = 7\<rparr>]"]
  by simp

subsection \<open>Colour mapping of finite values\<close>

lemma clamp_byte:
  "Math_min (Fin 255) (Math_max (Fin 0) (Math_round (Fin a)))
     = Fin (of_int (min 255 (max 0 \<lfloor>a + 1 / 2\<rfloor>)))"
  by (simp add: Math_min_def Math_max_def min_def max_def)

lemma getHeatmapColor_Fin:
  "getHeatmapColor (Fin r) =
     [Fin (of_int (min 255 (max 0 \<lfloor>r * 255 + 1 / 2\<rfloor>))),
      Fin (of_int (min 255 (max 0 \<lfloor>(1 - r) * 255 + 1 / 2\<rfloor>))),
      Fin 0]"
  by (simp add: getHeatmapColor_def Let_def jsub_def clamp_byte del: Math_round.simps)

lemma getHeatmapColor_ge_one:
  assumes "1 \<le> r"
  shows "getHeatmapColor (Fin r) = [Fin 255, Fin 0, Fin 0]"
proof -
  have "255 \<le> \<lfloor>r * 255 + 1 / 2\<rfloor>"
    using assms by (simp add: le_floor_iff)
  moreover have "\<lfloor>(1 - r) * 255 + 1 / 2\<rfloor> \<le> 0"
  proof -
    have "(1 - r) * 255 + 1 / 2 < 1" using assms by simp
    then have "\<lfloor>(1 - r) * 255 + 1 / 2\<rfloor> < 1"
      by (simp add: floor_less_iff)
    then show ?thesis by simp
  qed
  ultimately have "min 255 (max 0 \<lfloor>r * 255 + 1 / 2\<rfloor>) = 255"
    and "min 255 (max 0 \<lfloor>(1 - r) * 255 + 1 / 2\<rfloor>) = 0"
    by simp_all
  then show ?thesis
    by (simp only: getHeatmapColor_Fin of_int_numeral of_int_0)
qed

lemma some_threshold_high:
  "0.66 < r \<Longrightarrow> some_threshold (Fin r) thresholds (Fin 0) = Fin 1"
  by (simp add: thresholds_def)

lemma example_rbr_bounds:
  "1.061 < (13 / 15) / sqrt (2 / 3 :: real) \<and> (13 / 15) / sqrt (2 / 3 :: real) < 1.063"
proof -
  have pos: "0 < sqrt (2 / 3 :: real)" by simp
  have "sqrt (2 / 3 :: real) < 13 / 15 / 1.061"
    by (rule real_less_lsqrt) (simp_all add: power2_eq_square)
  then have a: "1.061 < (13 / 15) / sqrt (2 / 3 :: real)"
    using pos by (simp add: field_simps)
  have "(13 / 15 / 1.063 :: real) < sqrt (2 / 3)"
    by (rule real_less_rsqrt) (simp add: power2_eq_square)
  then have b: "(13 / 15) / sqrt (2 / 3 :: real) < 1.063"
    using pos by (simp add: field_simps)
  from a b show ?thesis ..
qed

subsection \<open>The end-to-end example\<close>

text \<open>
  Claim C1. For two samples that are not excluded, pre-fire with NIR 0.5 and SWIR 0.1
  and post-fire with NIR 0.2 and SWIR 0.3, the pre-fire index is \<open>2/3\<close> (0.667 to three
  places), the post-fire index is \<open>-0.2\<close>, the delta is \<open>13/15\<close> (0.867), the
  relativized ratio is \<open>(13/15) / sqrt (2/3)\<close>, which lies within 0.001 of 1.062, the
  base alpha is 1.0 (the High severity row), and the output is \<open>(255, 0, 0, 1.0)\<close>.
\<close>

theorem evaluatePixel_example:
  fixes scl1 scl2 m1 m2 :: int
  defines "pre \<equiv> examplePre scl1 m1" and "post \<equiv> examplePost scl2 m2"
  assumes "scl1 \<notin> set excludedClasses" and "scl2 \<notin> set excludedClasses"
  shows "pixelNBR pre = Fin (2 / 3) \<and> 0.666 < (2 / 3 :: real) \<and> (2 / 3 :: real) < 0.668 \<and>
    pixelNBR post = Fin (- 0.2) \<and>
    pixelDNBR pre post = Fin (13 / 15) \<and> 0.866 < (13 / 15 :: real) \<and> (13 / 15 :: real) < 0.868 \<and>
    pixelRBR pre post = Fin ((13 / 15) / sqrt (2 / 3)) \<and>
    1.061 < (13 / 15) / sqrt (2 / 3 :: real) \<and> (13 / 15) / sqrt (2 / 3 :: real) < 1.063 \<and>
    some_threshold (pixelRBR pre post) thresholds (Fin 0) = Fin 1.0 \<and>
    evaluatePixel [pre, post] = [Fin 255, Fin 0, Fin 0, Fin 1.0]"
proof -
  have n1: "pixelNBR pre = Fin (2 / 3)"
    by (simp add: pixelNBR_raw pre_def examplePre_def calculateNBR_def jsub_def)
  have n2: "pixelNBR post = Fin (- 0.2)"
    by (simp add: pixelNBR_raw post_def examplePost_def calculateNBR_def jsub_def)
  have d: "pixelDNBR pre post = Fin (13 / 15)"
    by (simp add: pixelDNBR_def n1 n2 jsub_def)
  have r: "pixelRBR pre post = Fin ((13 / 15) / sqrt (2 / 3))"
    by (simp add: pixelRBR_def d n1 calculateRBR_def)
  note b = example_rbr_bounds
  have weaken: "1 \<le> x \<and> 0.66 < x" if "1.061 < x" for x :: real
    using that by simp
  from b weaken have big: "(1 :: real) \<le> (13 / 15) / sqrt (2 / 3)"
    and high: "(0.66 :: real) < (13 / 15) / sqrt (2 / 3)"
    by blast+
  have t: "some_threshold (pixelRBR pre post) thresholds (Fin 0) = Fin 1.0"
    unfolding r using some_threshold_high [OF high] by simp
  have c: "getHeatmapColor (pixelRBR pre post) = [Fin 255, Fin 0, Fin 0]"
    unfolding r by (rule getHeatmapColor_ge_one [OF big])
  have e: "evaluatePixel [pre, post] = [Fin 255, Fin 0, Fin 0, Fin 1.0]"
  proof -
    have "SCL pre = scl1" and "SCL post = scl2"
      by (simp_all add: pre_def examplePre_def post_def examplePost_def)
    with assms(3,4) show ?thesis
      by (simp add: evaluatePixel_pair c t adjustTransparency_def)
  qed
  show ?thesis
    using n1 n2 d r t e b by simp
qed

theorem evaluatePixel_example_witness:
  "4 \<notin> set excludedClasses \<and> 5 \<notin> set excludedClasses \<and>
   evaluatePixel [\<lparr>B08 = Fin 0.5, B12 = Fin 0.1, SCL = 4, dataMask = 1\<rparr>,
                  \<lparr>B08 = Fin 0.2, B12 = Fin 0.3, SCL = 5, dataMask = 1\<rparr>]
     = [Fin 255, Fin 0, Fin 0, Fin 1]"
  using evaluatePixel_example [of 4 5 1 1]
  by (simp add: excludedClasses_def examplePre_def examplePost_def)

subsection \<open>The relativized index\<close>

lemma pixelRBR_raw:
  "pixelRBR f l =
     jdiv (jsub (calculateNBR (B08 f) (B12 f)) (calculateNBR (B08 l) (B12 l)))
       (Math_sqrt (Math_abs (calculateNBR (B08 f) (B12 f))))"
  by (simp add: pixelRBR_def pixelDNBR_def pixelNBR_raw calculateRBR_def)

text \<open>
  The claim C3 reads the delta as post minus pre. At the end-to-end example the
  relativized index of the script is positive, and the value with the post-minus-pre
  delta is its negative.
\<close>

theorem relativized_index_counterexample:
  "pixelRBR (examplePre 4 1) (examplePost 5 1) \<noteq>
     jdiv (jsub (calculateNBR (Fin 0.2) (Fin 0.3)) (calculateNBR (Fin 0.5) (Fin 0.1)))
       (Math_sqrt (Math_abs (calculateNBR (Fin 0.5) (Fin 0.1))))"
proof -
  have l: "pixelRBR (examplePre 4 1) (examplePost 5 1) = Fin ((13 / 15) / sqrt (2 / 3))"
    by (simp add: pixelRBR_raw examplePre_def examplePost_def calculateNBR_def jsub_def)
  have r: "jdiv (jsub (calculateNBR (Fin 0.2) (Fin 0.3)) (calculateNBR (Fin 0.5) (Fin 0.1)))
       (Math_sqrt (Math_abs (calculateNBR (Fin 0.5) (Fin 0.1)))) = Fin ((- 13 / 15) / sqrt (2 / 3))"
    by (simp add: calculateNBR_def jsub_def)
  have "(0 :: real) < (13 / 15) / sqrt (2 / 3)" by simp
  moreover have "(- 13 / 15) / sqrt (2 / 3) < (0 :: real)" by simp
  ultimately have "(13 / 15) / sqrt (2 / 3) \<noteq> (- 13 / 15) / sqrt (2 / 3 :: real)"
    by linarith
  then show ?thesis
    unfolding l r by simp
qed

text \<open>
  Claim C3, amended. The delta passed to \<^verbatim>\<open>calculateRBR\<close> is the pre-fire index
  minus the post-fire index and the baseline is the pre-fire index: the relativized
  index is \<open>(pre - post) / sqrt |pre|\<close> in JavaScript arithmetic, which for finite
  indices with a non-zero pre-fire index is that real number; and it is the value
  from which a pixel that passes both guards takes its colour and its alpha.
\<close>

theorem relativized_index:
  "pixelRBR f l =
     jdiv (jsub (calculateNBR (B08 f) (B12 f)) (calculateNBR (B08 l) (B12 l)))
       (Math_sqrt (Math_abs (calculateNBR (B08 f) (B12 f)))) \<and>
   (calculateNBR (B08 f) (B12 f) = Fin p \<and> calculateNBR (B08 l) (B12 l) = Fin q \<and> p \<noteq> 0
      \<longrightarrow> pixelRBR f l = Fin ((p - q) / sqrt \<bar>p\<bar>)) \<and>
   (SCL f \<notin> set excludedClasses \<and> SCL l \<notin> set excludedClasses
      \<longrightarrow> evaluatePixel [f, l] =
            getHeatmapColor (pixelRBR f l)
              @ [adjustTransparency (some_threshold (pixelRBR f l) thresholds (Fin 0))])"
  by (simp add: pixelRBR_raw evaluatePixel_pair jsub_def)

theorem relativized_index_witness:
  "pixelRBR (examplePre 4 1) (examplePost 5 1) = Fin ((2 / 3 - (- 1 / 5)) / sqrt \<bar>2 / 3\<bar>) \<and>
   evaluatePixel [examplePre 4 1, examplePost 5 1] =
     getHeatmapColor (pixelRBR (examplePre 4 1) (examplePost 5 1))
       @ [adjustTransparency
            (some_threshold (pixelRBR (examplePre 4 1) (examplePost 5 1)) thresholds (Fin 0))]"
  using relativized_index [of "examplePre 4 1" "examplePost 5 1" "2 / 3" "- 1 / 5"]
  by (simp add: examplePre_def examplePost_def calculateNBR_def jsub_def excludedClasses_def)

subsection \<open>The alpha adjustment\<close>

text \<open>
  Claim C9. \<^verbatim>\<open>adjustTransparency\<close> maps a base alpha \<open>a\<close> to \<open>a\<^sup>2\<close>, is
  monotonically non-decreasing on \<open>[0,1]\<close>, and maps 0 to 0, 1 to 1 and 0.5 to 0.25.
\<close>

theorem adjustTransparency_square:
  "adjustTransparency (Fin a) = Fin (a\<^sup>2) \<and>
   (0 \<le> a \<and> a \<le> b \<and> b \<le> 1
      \<longrightarrow> jle (adjustTransparency (Fin a)) (adjustTransparency (Fin b))) \<and>
   adjustTransparency (Fin 0) = Fin 0 \<and>
   adjustTransparency (Fin 1) = Fin 1 \<and>
   adjustTransparency (Fin 0.5) = Fin 0.25"
  by (simp add: adjustTransparency_def power2_eq_square mult_mono)

theorem adjustTransparency_square_witness:
  "(0 :: real) \<le> 0.3 \<and> (0.3 :: real) \<le> 0.7 \<and> (0.7 :: real) \<le> 1 \<and>
   jle (adjustTransparency (Fin 0.3)) (adjustTransparency (Fin 0.7)) \<and>
   adjustTransparency (Fin 0.3) = Fin 0.09"
  using adjustTransparency_square [of "0.3" "0.7"]
  by (simp add: adjustTransparency_def power2_eq_square)

subsection \<open>Range of the output\<close>

lemma getHeatmapColor_PInf: "getHeatmapColor PInf = [Fin 255, Fin 0, Fin 0]"
  by (simp add: getHeatmapColor_def Let_def jsub_def Math_min_def Math_max_def)

lemma getHeatmapColor_NInf: "getHeatmapColor NInf = [Fin 0, Fin 255, Fin 0]"
  by (simp add: getHeatmapColor_def Let_def jsub_def Math_min_def Math_max_def)

lemma getHeatmapColor_NaN: "getHeatmapColor NaN = [NaN, NaN, Fin 0]"
  by (simp add: getHeatmapColor_def Let_def jsub_def Math_min_def Math_max_def)

lemma colorChannel_clamp: "colorChannel (Fin (of_int (min 255 (max 0 n))))"
  by (simp add: min_def max_def)

lemma getHeatmapColor_channels:
  assumes "r \<noteq> NaN"
  shows "\<exists>red green. getHeatmapColor r = [red, green, Fin 0]
           \<and> colorChannel red \<and> colorChannel green"
proof (cases r)
  case (Fin a)
  then show ?thesis
    unfolding Fin getHeatmapColor_Fin using colorChannel_clamp by blast
next
  case PInf
  then show ?thesis by (simp add: getHeatmapColor_PInf)
next
  case NInf
  then show ?thesis by (simp add: getHeatmapColor_NInf)
next
  case NaN
  with assms show ?thesis by simp
qed

lemma getHeatmapColor_shape: "\<exists>red green. getHeatmapColor r = [red, green, Fin 0]"
  by (simp add: getHeatmapColor_def Let_def)

lemma some_threshold_values:
  "some_threshold r thresholds (Fin 0) \<in> {Fin 0, Fin 0.3, Fin 0.5, Fin 0.7, Fin 1}"
  by (simp add: thresholds_def)

lemma adjusted_alpha_unit:
  "unitAlpha (adjustTransparency (some_threshold r thresholds (Fin 0)))"
proof -
  have "unitAlpha (adjustTransparency a)"
    if "a \<in> {Fin 0, Fin 0.3, Fin 0.5, Fin 0.7, Fin 1}" for a
    using that by (auto simp: adjustTransparency_def power2_eq_square)
  then show ?thesis
    using some_threshold_values by blast
qed

lemma evaluatePixel_cases:
  "evaluatePixel samples = [Fin 0, Fin 0, Fin 0, Fin 0] \<or>
   (\<exists>f l. samples = [f, l] \<and> SCL f \<notin> set excludedClasses \<and> SCL l \<notin> set excludedClasses \<and>
      evaluatePixel samples =
        getHeatmapColor (pixelRBR f l)
          @ [adjustTransparency (some_threshold (pixelRBR f l) thresholds (Fin 0))])"
proof (cases "length samples = 2")
  case False
  then show ?thesis by (simp add: evaluatePixel_def)
next
  case True
  then obtain f l where "samples = [f, l]" using length_two by blast
  then show ?thesis by (simp add: evaluatePixel_pair)
qed

lemma evaluatePixel_wellformed:
  assumes "length samples \<noteq> 2 \<or> (\<exists>s \<in> set samples. SCL s \<in> set excludedClasses) \<or>
    pixelRBR (samples ! 0) (samples ! 1) \<noteq> NaN"
  shows "pixelOutput (evaluatePixel samples)"
  using evaluatePixel_cases [of samples]
proof
  assume "evaluatePixel samples = [Fin 0, Fin 0, Fin 0, Fin 0]"
  then show ?thesis by simp
next
  assume "\<exists>f l. samples = [f, l] \<and> SCL f \<notin> set excludedClasses \<and>
    SCL l \<notin> set excludedClasses \<and>
    evaluatePixel samples =
      getHeatmapColor (pixelRBR f l)
        @ [adjustTransparency (some_threshold (pixelRBR f l) thresholds (Fin 0))]"
  then obtain f l where s: "samples = [f, l]"
    and x: "SCL f \<notin> set excludedClasses" "SCL l \<notin> set excludedClasses"
    and e: "evaluatePixel samples =
      getHeatmapColor (pixelRBR f l)
        @ [adjustTransparency (some_threshold (pixelRBR f l) thresholds (Fin 0))]"
    by blast
  from assms s x have "pixelRBR f l \<noteq> NaN" by auto
  then obtain red green where "getHeatmapColor (pixelRBR f l) = [red, green, Fin 0]"
    and "colorChannel red" and "colorChannel green"
    using getHeatmapColor_channels by blast
  with e adjusted_alpha_unit [of "pixelRBR f l"] show ?thesis by simp
qed

lemma evaluatePixel_alpha_blue:
  "\<exists>red green alpha. evaluatePixel samples = [red, green, Fin 0, alpha] \<and> unitAlpha alpha"
  using evaluatePixel_cases [of samples]
proof
  assume "evaluatePixel samples = [Fin 0, Fin 0, Fin 0, Fin 0]"
  then show ?thesis by simp
next
  assume "\<exists>f l. samples = [f, l] \<and> SCL f \<notin> set excludedClasses \<and>
    SCL l \<notin> set excludedClasses \<and>
    evaluatePixel samples =
      getHeatmapColor (pixelRBR f l)
        @ [adjustTransparency (some_threshold (pixelRBR f l) thresholds (Fin 0))]"
  then obtain f l where e: "evaluatePixel samples =
      getHeatmapColor (pixelRBR f l)
        @ [adjustTransparency (some_threshold (pixelRBR f l) thresholds (Fin 0))]"
    by blast
  obtain red green where "getHeatmapColor (pixelRBR f l) = [red, green, Fin 0]"
    using getHeatmapColor_shape by blast
  with e adjusted_alpha_unit [of "pixelRBR f l"] show ?thesis by simp
qed

text \<open>
  The claim C6 promises integer colour channels in \<open>[0,255]\<close> for all inputs. A pixel
  whose NIR and SWIR reflectances coincide in both scenes passes both guards with two
  zero indices; the relativized ratio is then \<open>0 / 0\<close>, which is NaN, and
  \<^verbatim>\<open>Math.round\<close>, \<^verbatim>\<open>Math.max\<close> and \<^verbatim>\<open>Math.min\<close> hand NaN on to the red
  and the green channel.
\<close>

theorem evaluatePixel_range_counterexample:
  "evaluatePixel [flatPre, flatPost] = [NaN, NaN, Fin 0, Fin 0] \<and>
   \<not> pixelOutput (evaluatePixel [flatPre, flatPost])"
proof -
  have "pixelRBR flatPre flatPost = NaN"
    by (simp add: pixelRBR_raw flatPre_def flatPost_def calculateNBR_def jsub_def)
  moreover have "SCL flatPre \<notin> set excludedClasses" "SCL flatPost \<notin> set excludedClasses"
    by (simp_all add: flatPre_def flatPost_def excludedClasses_def)
  moreover have "some_threshold NaN thresholds (Fin 0) = Fin 0"
    by (simp add: thresholds_def)
  ultimately have "evaluatePixel [flatPre, flatPost] = [NaN, NaN, Fin 0, Fin 0]"
    by (simp add: evaluatePixel_pair getHeatmapColor_NaN adjustTransparency_def)
  then show ?thesis by simp
qed

text \<open>
  Claim C6, amended. For all inputs the output has four channels, the blue channel is
  0 and the alpha channel lies in \<open>[0,1]\<close>. The red and the green channel are integers
  in \<open>[0,255]\<close> whenever a guard returns or the relativized ratio computed for the
  pixel is not NaN.
\<close>

theorem evaluatePixel_range:
  "(\<exists>red green alpha. evaluatePixel samples = [red, green, Fin 0, alpha] \<and> unitAlpha alpha) \<and>
   (length samples \<noteq> 2 \<or> (\<exists>s \<in> set samples. SCL s \<in> set excludedClasses) \<or>
    pixelRBR (samples ! 0) (samples ! 1) \<noteq> NaN
      \<longrightarrow> pixelOutput (evaluatePixel samples))"
proof (intro conjI impI)
  show "\<exists>red green alpha. evaluatePixel samples = [red, green, Fin 0, alpha] \<and> unitAlpha alpha"
    by (rule evaluatePixel_alpha_blue)
next
  assume "length samples \<noteq> 2 \<or> (\<exists>s \<in> set samples. SCL s \<in> set excludedClasses) \<or>
    pixelRBR (samples ! 0) (samples ! 1) \<noteq> NaN"
  then show "pixelOutput (evaluatePixel samples)"
    by (rule evaluatePixel_wellformed)
qed

theorem evaluatePixel_range_witness:
  "pixelRBR (examplePre 4 1) (examplePost 5 1) \<noteq> NaN \<and>
   pixelOutput (evaluatePixel [examplePre 4 1, examplePost 5 1]) \<and>
   length [flatPre] \<noteq> 2 \<and>
   pixelOutput (evaluatePixel [flatPre]) \<and>
   (\<exists>red green alpha.
      evaluatePixel [flatPre, flatPost] = [red, green, Fin 0, alpha] \<and> unitAlpha alpha)"
proof -
  have r: "pixelRBR (examplePre 4 1) (examplePost 5 1) \<noteq> NaN"
    by (simp add: pixelRBR_raw examplePre_def examplePost_def calculateNBR_def jsub_def)
  note full = evaluatePixel_range [of "[examplePre 4 1, examplePost 5 1]"]
  note short = evaluatePixel_range [of "[flatPre]"]
  note flat = evaluatePixel_range [of "[flatPre, flatPost]"]
  have a: "pixelOutput (evaluatePixel [examplePre 4 1, examplePost 5 1])"
    using full [THEN conjunct2] r by simp
  have n: "length [flatPre] \<noteq> 2"
    by simp
  have b: "pixelOutput (evaluatePixel [flatPre])"
    using short [THEN conjunct2] n by blast
  from r a n b flat [THEN conjunct1] show ?thesis
    by (intro conjI)
qed

subsection \<open>The severity classifier\<close>

lemma some_threshold_find:
  "some_threshold r ts a =
     (case find (\<lambda>t. jle r (max_thr t)) ts of Some t \<Rightarrow> alpha_thr t | None \<Rightarrow> a)"
  by (induction ts) simp_all

lemma some_threshold_first:
  assumes "i < length ts" and "jle r (max_thr (ts ! i))"
    and "\<forall>j<i. \<not> jle r (max_thr (ts ! j))"
  shows "some_threshold r ts a = alpha_thr (ts ! i)"
  using assms
proof (induction ts arbitrary: i)
  case Nil
  then show ?case by simp
next
  case (Cons t ts)
  show ?case
  proof (cases i)
    case 0
    with Cons.prems show ?thesis by simp
  next
    case (Suc k)
    with Cons.prems have "\<not> jle r (max_thr t)" by auto
    moreover from Suc Cons.prems have "some_threshold r ts a = alpha_thr (ts ! k)"
      by (intro Cons.IH) auto
    ultimately show ?thesis using Suc by simp
  qed
qed

lemma first_match_unique:
  assumes "P i" "\<forall>j<i. \<not> P j" "P k" "\<forall>j<k. \<not> P j"
  shows "i = (k :: nat)"
  using assms by (meson linorder_neqE_nat)

lemma thresholds_match_last: "r \<noteq> NaN \<Longrightarrow> jle r (max_thr (thresholds ! 4))"
  by (cases r) (simp_all add: thresholds_def)

lemma first_match_exists:
  assumes "r \<noteq> NaN"
  shows "\<exists>i<length thresholds. jle r (max_thr (thresholds ! i))
           \<and> (\<forall>j<i. \<not> jle r (max_thr (thresholds ! j)))"
proof -
  let ?P = "\<lambda>i. i < length thresholds \<and> jle r (max_thr (thresholds ! i))"
  have "?P 4" using thresholds_match_last [OF assms] by (simp add: thresholds_def)
  then have "?P (LEAST i. ?P i)" by (rule LeastI)
  moreover have "\<forall>j<(LEAST i. ?P i). \<not> jle r (max_thr (thresholds ! j))"
    using not_less_Least [of _ ?P] calculation by (metis order.strict_trans)
  ultimately show ?thesis by blast
qed

lemma thresholds_unmatched:
  "find (\<lambda>t. jle r (max_thr t)) thresholds = None \<longleftrightarrow> r = NaN"
  by (cases r) (simp_all add: thresholds_def)

text \<open>
  The claim C4 lets every unmatched or invalid RBR keep the default alpha 0.0. A pixel
  whose pre-fire NIR and SWIR coincide and whose post-fire index is negative has the
  pre-fire index 0 and a positive delta, so its relativized ratio is a positive number
  over zero, which is \<open>+\<infinity>\<close>. The last row of the table has \<open>max = +\<infinity>\<close>, the
  comparison \<open>+\<infinity> \<le> +\<infinity>\<close> holds, and the pixel gets the alpha 1.0 of the High
  severity row.
\<close>

theorem severity_classifier_counterexample:
  "pixelRBR flatPre (examplePost 4 1) = PInf \<and>
   some_threshold (pixelRBR flatPre (examplePost 4 1)) thresholds (Fin 0.0) = Fin 1.0 \<and>
   some_threshold (pixelRBR flatPre (examplePost 4 1)) thresholds (Fin 0.0) \<noteq> Fin 0.0 \<and>
   evaluatePixel [flatPre, examplePost 4 1] = [Fin 255, Fin 0, Fin 0, Fin 1.0]"
proof -
  have r: "pixelRBR flatPre (examplePost 4 1) = PInf"
    by (simp add: pixelRBR_raw flatPre_def examplePost_def calculateNBR_def jsub_def)
  have t: "some_threshold PInf thresholds (Fin 0.0) = Fin 1.0"
    by (simp add: thresholds_def)
  have x: "SCL flatPre \<notin> set excludedClasses" "SCL (examplePost 4 1) \<notin> set excludedClasses"
    by (simp_all add: flatPre_def examplePost_def excludedClasses_def)
  have e: "evaluatePixel [flatPre, examplePost 4 1] = [Fin 255, Fin 0, Fin 0, Fin 1.0]"
    using x t by (simp add: evaluatePixel_pair r getHeatmapColor_PInf adjustTransparency_def)
  from t have "some_threshold PInf thresholds (Fin 0.0) \<noteq> Fin 0.0"
    by simp
  with r t e show ?thesis
    by simp
qed

text \<open>
  Claim C4, amended. The table is
  \<open>[(0.10, 0.0), (0.27, 0.3), (0.44, 0.5), (0.66, 0.7), (+\<infinity>, 1.0)]\<close>, ascending in
  \<open>max\<close>. The scan returns the alpha of the first row with \<open>RBR \<le> max\<close>, and the
  default 0.0 when no row matches. For every finite RBR exactly one row is the first
  match, and the scan returns the alpha of that row, which is the alpha of the band
  the value lies in. Of the values that are not finite, \<open>+\<infinity>\<close> matches the last row
  and gets its alpha 1.0, \<open>-\<infinity>\<close> matches the first row and gets its alpha 0.0, and
  NaN is the only value that no row matches: it alone keeps the default alpha 0.0.
\<close>

theorem severity_classifier:
  "map (\<lambda>t. (max_thr t, alpha_thr t)) thresholds =
     [(Fin 0.10, Fin 0.0), (Fin 0.27, Fin 0.3), (Fin 0.44, Fin 0.5), (Fin 0.66, Fin 0.7),
      (PInf, Fin 1.0)] \<and>
   sorted_wrt (\<lambda>a b. jle (max_thr a) (max_thr b) \<and> max_thr a \<noteq> max_thr b) thresholds \<and>
   some_threshold r thresholds (Fin 0.0) =
     (case find (\<lambda>t. jle r (max_thr t)) thresholds of
        Some t \<Rightarrow> alpha_thr t | None \<Rightarrow> Fin 0.0) \<and>
   (\<exists>!i. i < length thresholds \<and> jle (Fin x) (max_thr (thresholds ! i)) \<and>
      (\<forall>j<i. \<not> jle (Fin x) (max_thr (thresholds ! j)))) \<and>
   (\<forall>i. i < length thresholds \<and> jle (Fin x) (max_thr (thresholds ! i)) \<and>
      (\<forall>j<i. \<not> jle (Fin x) (max_thr (thresholds ! j)))
      \<longrightarrow> some_threshold (Fin x) thresholds (Fin 0.0) = alpha_thr (thresholds ! i)) \<and>
   some_threshold (Fin x) thresholds (Fin 0.0) =
     Fin (if x \<le> 0.10 then 0.0 else if x \<le> 0.27 then 0.3 else if x \<le> 0.44 then 0.5
          else if x \<le> 0.66 then 0.7 else 1.0) \<and>
   (find (\<lambda>t. jle r (max_thr t)) thresholds = None \<longleftrightarrow> r = NaN) \<and>
   some_threshold NaN thresholds (Fin 0.0) = Fin 0.0 \<and>
   some_threshold PInf thresholds (Fin 0.0) = Fin 1.0 \<and>
   some_threshold NInf thresholds (Fin 0.0) = Fin 0.0"
proof (intro conjI)
  show "map (\<lambda>t. (max_thr t, alpha_thr t)) thresholds =
     [(Fin 0.10, Fin 0.0), (Fin 0.27, Fin 0.3), (Fin 0.44, Fin 0.5), (Fin 0.66, Fin 0.7),
      (PInf, Fin 1.0)]"
    by (simp add: thresholds_def)
  show "sorted_wrt (\<lambda>a b. jle (max_thr a) (max_thr b) \<and> max_thr a \<noteq> max_thr b) thresholds"
    by (simp add: thresholds_def)
  show "some_threshold r thresholds (Fin 0.0) =
     (case find (\<lambda>t. jle r (max_thr t)) thresholds of
        Some t \<Rightarrow> alpha_thr t | None \<Rightarrow> Fin 0.0)"
    by (rule some_threshold_find)
  show "\<exists>!i. i < length thresholds \<and> jle (Fin x) (max_thr (thresholds ! i)) \<and>
      (\<forall>j<i. \<not> jle (Fin x) (max_thr (thresholds ! j)))"
  proof (rule ex_ex1I)
    show "\<exists>i. i < length thresholds \<and> jle (Fin x) (max_thr (thresholds ! i)) \<and>
      (\<forall>j<i. \<not> jle (Fin x) (max_thr (thresholds ! j)))"
      using first_match_exists [of "Fin x"] by auto
  next
    fix i k
    assume "i < length thresholds \<and> jle (Fin x) (max_thr (thresholds ! i)) \<and>
      (\<forall>j<i. \<not> jle (Fin x) (max_thr (thresholds ! j)))"
      and "k < length thresholds \<and> jle (Fin x) (max_thr (thresholds ! k)) \<and>
      (\<forall>j<k. \<not> jle (Fin x) (max_thr (thresholds ! j)))"
    then show "i = k"
      using first_match_unique [of "\<lambda>i. jle (Fin x) (max_thr (thresholds ! i))" i k]
      by blast
  qed
  show "\<forall>i. i < length thresholds \<and> jle (Fin x) (max_thr (thresholds ! i)) \<and>
      (\<forall>j<i. \<not> jle (Fin x) (max_thr (thresholds ! j)))
      \<longrightarrow> some_threshold (Fin x) thresholds (Fin 0.0) = alpha_thr (thresholds ! i)"
    using some_threshold_first by blast
  show "some_threshold (Fin x) thresholds (Fin 0.0) =
     Fin (if x \<le> 0.10 then 0.0 else if x \<le> 0.27 then 0.3 else if x \<le> 0.44 then 0.5
          else if x \<le> 0.66 then 0.7 else 1.0)"
    by (simp add: thresholds_def)
  show "find (\<lambda>t. jle r (max_thr t)) thresholds = None \<longleftrightarrow> r = NaN"
    by (rule thresholds_unmatched)
  show "some_threshold NaN thresholds (Fin 0.0) = Fin 0.0"
    by (simp add: thresholds_def)
  show "some_threshold PInf thresholds (Fin 0.0) = Fin 1.0"
    by (simp add: thresholds_def)
  show "some_threshold NInf thresholds (Fin 0.0) = Fin 0.0"
    by (simp add: thresholds_def)
qed

theorem severity_classifier_witness:
  "jle (Fin 0.3) (max_thr (thresholds ! 2)) \<and>
   \<not> jle (Fin 0.3) (max_thr (thresholds ! 0)) \<and>
   \<not> jle (Fin 0.3) (max_thr (thresholds ! 1)) \<and>
   some_threshold (Fin 0.3) thresholds (Fin 0.0) = alpha_thr (thresholds ! 2) \<and>
   alpha_thr (thresholds ! 2) = Fin 0.5"
proof -
  have m: "jle (Fin 0.3) (max_thr (thresholds ! 2))"
    and n0: "\<not> jle (Fin 0.3) (max_thr (thresholds ! 0))"
    and n1: "\<not> jle (Fin 0.3) (max_thr (thresholds ! 1))"
    and a: "alpha_thr (thresholds ! 2) = Fin 0.5"
    by (simp_all add: thresholds_def)
  have len: "2 < length thresholds"
    by (simp add: thresholds_def)
  have "\<forall>j<2. \<not> jle (Fin 0.3) (max_thr (thresholds ! j))"
  proof (intro allI impI)
    fix j :: nat
    assume "j < 2"
    then have "j = 0 \<or> j = 1" by auto
    with n0 n1 show "\<not> jle (Fin 0.3) (max_thr (thresholds ! j))" by auto
  qed
  with severity_classifier [of NaN "0.3"] len m
  have "some_threshold (Fin 0.3) thresholds (Fin 0.0) = alpha_thr (thresholds ! 2)"
    by blast
  with m n0 n1 a show ?thesis by simp
qed

subsection \<open>The moving average\<close>

lemma smoothInner_fold:
  "smoothInner ds hi j (s, c) =
     (foldl jadd s (map (\<lambda>k. ds ! nat k) (filter (\<lambda>k. 0 \<le> k \<and> k < int (length ds)) [j..hi])),
      c + length (filter (\<lambda>k. 0 \<le> k \<and> k < int (length ds)) [j..hi]))"
proof (induction ds hi j "(s, c)" arbitrary: s c rule: smoothInner.induct)
  case (1 ds hi j s c)
  show ?case
  proof (cases "j \<le> hi")
    case False
    then show ?thesis by (subst smoothInner.simps) simp
  next
    case True
    then have u: "[j..hi] = j # [j + 1..hi]"
      by (simp add: upto_rec1)
    show ?thesis
    proof (cases "0 \<le> j \<and> j < int (length ds)")
      case inside: True
      have "smoothInner ds hi j (s, c)
              = smoothInner ds hi (j + 1) (jadd s (ds ! nat j), c + 1)"
        using True inside by (subst smoothInner.simps) simp
      also have "\<dots> = (foldl jadd (jadd s (ds ! nat j)) (map (\<lambda>k. ds ! nat k)
            (filter (\<lambda>k. 0 \<le> k \<and> k < int (length ds)) [j + 1..hi])),
          c + 1 + length (filter (\<lambda>k. 0 \<le> k \<and> k < int (length ds)) [j + 1..hi]))"
        using True inside by (intro "1.hyps") simp_all
      finally show ?thesis
        unfolding u using inside by simp
    next
      case outside: False
      have "smoothInner ds hi j (s, c) = smoothInner ds hi (j + 1) (s, c)"
        using True outside by (subst smoothInner.simps) auto
      also have "\<dots> = (foldl jadd s (map (\<lambda>k. ds ! nat k)
            (filter (\<lambda>k. 0 \<le> k \<and> k < int (length ds)) [j + 1..hi])),
          c + length (filter (\<lambda>k. 0 \<le> k \<and> k < int (length ds)) [j + 1..hi]))"
        using True outside by (intro "1.hyps") auto
      finally show ?thesis
        unfolding u using outside by auto
    qed
  qed
qed

lemma smoothInner_window:
  "smoothInner ds (int i + h) (int i - h) (Fin 0, 0) =
     (foldl jadd (Fin 0) (map (\<lambda>k. ds ! nat k) (windowIndices (length ds) i h)),
      length (windowIndices (length ds) i h))"
  by (simp add: smoothInner_fold windowIndices_def)

lemma smoothOuter_map:
  "smoothOuter ds w i acc =
     acc @ map (\<lambda>k. jdiv (foldl jadd (Fin 0)
                            (map (\<lambda>j. ds ! nat j) (windowIndices (length ds) k (w div 2))))
                       (Fin (real (length (windowIndices (length ds) k (w div 2))))))
             [i..<length ds]"
proof (induction ds w i acc rule: smoothOuter.induct)
  case (1 ds w i acc)
  show ?case
  proof (cases "i < length ds")
    case False
    then show ?thesis by (subst smoothOuter.simps) simp
  next
    case True
    then have u: "[i..<length ds] = i # [i + 1..<length ds]"
      by (simp add: upt_conv_Cons)
    show ?thesis
      using True "1.IH"
      by (subst smoothOuter.simps) (simp add: smoothInner_window u)
  qed
qed

lemma foldl_jadd_Fin: "foldl jadd (Fin s) (map Fin ys) = Fin (s + sum_list ys)"
  by (induction ys arbitrary: s) (simp_all add: add.assoc)

lemma windowIndices_set:
  "set (windowIndices n i h) = {k. 0 \<le> k \<and> k < int n \<and> int i - h \<le> k \<and> k \<le> int i + h}"
  by (auto simp: windowIndices_def)

lemma windowIndices_distinct: "distinct (windowIndices n i h)"
  by (simp add: windowIndices_def)

lemma windowIndices_nat:
  "nat ` set (windowIndices n i h) = {j. j < n \<and> \<bar>int j - int i\<bar> \<le> h}"
proof (intro set_eqI iffI)
  fix j
  assume "j \<in> nat ` set (windowIndices n i h)"
  then show "j \<in> {j. j < n \<and> \<bar>int j - int i\<bar> \<le> h}"
    by (auto simp: windowIndices_set)
next
  fix j
  assume "j \<in> {j. j < n \<and> \<bar>int j - int i\<bar> \<le> h}"
  then have "int j \<in> set (windowIndices n i h)"
    by (auto simp: windowIndices_set)
  then have "nat (int j) \<in> nat ` set (windowIndices n i h)"
    by (rule imageI)
  then show "j \<in> nat ` set (windowIndices n i h)" by simp
qed

lemma windowIndices_inj: "inj_on nat (set (windowIndices n i h))"
  by (rule inj_onI) (auto simp: windowIndices_set)

lemma window_sum:
  "sum_list (map (\<lambda>k. f (nat k)) (windowIndices n i h))
     = (\<Sum>j | j < n \<and> \<bar>int j - int i\<bar> \<le> h. f j)"
proof -
  have "sum_list (map (\<lambda>k. f (nat k)) (windowIndices n i h))
          = (\<Sum>k\<in>set (windowIndices n i h). f (nat k))"
    by (rule sum_list_distinct_conv_sum_set [OF windowIndices_distinct])
  also have "\<dots> = (\<Sum>j\<in>nat ` set (windowIndices n i h). f j)"
    by (simp add: sum.reindex [OF windowIndices_inj])
  finally show ?thesis by (simp add: windowIndices_nat)
qed

lemma window_card:
  "length (windowIndices n i h) = card {j. j < n \<and> \<bar>int j - int i\<bar> \<le> h}"
proof -
  have "length (windowIndices n i h) = card (set (windowIndices n i h))"
    by (simp add: distinct_card [OF windowIndices_distinct])
  also have "\<dots> = card (nat ` set (windowIndices n i h))"
    by (simp add: card_image [OF windowIndices_inj])
  finally show ?thesis by (simp add: windowIndices_nat)
qed

lemma window_nonempty:
  assumes "i < n" and "0 \<le> h"
  shows "0 < card {j. j < n \<and> \<bar>int j - int i\<bar> \<le> h}"
proof -
  have "finite {j. j < n \<and> \<bar>int j - int i\<bar> \<le> h}" by simp
  moreover have "i \<in> {j. j < n \<and> \<bar>int j - int i\<bar> \<le> h}" using assms by simp
  ultimately show ?thesis by (metis card_gt_0_iff empty_iff)
qed

lemma jdiv_Fin_nonzero: "b \<noteq> 0 \<Longrightarrow> jdiv (Fin a) (Fin b) = Fin (a / b)"
  by simp

lemma smoothData_nth:
  assumes "i < length xs" and "0 \<le> w div 2"
  shows "smoothData (map Fin xs) w ! i =
     Fin ((\<Sum>j | j < length xs \<and> \<bar>int j - int i\<bar> \<le> w div 2. xs ! j)
            / real (card {j. j < length xs \<and> \<bar>int j - int i\<bar> \<le> w div 2}))"
proof -
  let ?W = "windowIndices (length xs) i (w div 2)"
  have m: "map (\<lambda>j. map Fin xs ! nat j) ?W = map Fin (map (\<lambda>j. xs ! nat j) ?W)"
    by (auto simp: windowIndices_set)
  have "smoothData (map Fin xs) w ! i =
      jdiv (foldl jadd (Fin 0) (map (\<lambda>j. map Fin xs ! nat j) ?W)) (Fin (real (length ?W)))"
    using assms(1) by (simp add: smoothData_def smoothOuter_map)
  also have "\<dots> = jdiv (Fin (sum_list (map (\<lambda>j. xs ! nat j) ?W))) (Fin (real (length ?W)))"
    unfolding m foldl_jadd_Fin by simp
  also have "\<dots> = Fin (sum_list (map (\<lambda>j. xs ! nat j) ?W) / real (length ?W))"
  proof -
    have "0 < length ?W"
      unfolding window_card by (rule window_nonempty [OF assms])
    then have "real (length ?W) \<noteq> 0"
      by simp
    then show ?thesis by (rule jdiv_Fin_nonzero)
  qed
  finally show ?thesis
    by (simp add: window_sum window_card)
qed

lemma length_smoothData: "length (smoothData ds w) = length ds"
  by (simp add: smoothData_def smoothOuter_map)

lemma smoothData_singleton:
  assumes "0 \<le> w div 2"
  shows "smoothData [x] w = [x]"
proof -
  have "[0 - w div 2..0 + w div 2] = [0 - w div 2..0 - 1] @ 0 # [0 + 1..0 + w div 2]"
    using assms by (intro upto_split3) simp_all
  then have "windowIndices 1 0 (w div 2) = [0]"
    by (simp add: windowIndices_def filter_empty_conv)
  then show ?thesis
    by (simp add: smoothData_def smoothOuter_map jadd_zero_left jdiv_one)
qed

lemma smoothData_example:
  "smoothData (map Fin [1, 2, 3, 4, 5]) 3 = map Fin [1.5, 2, 3, 4, 4.5]"
  by (simp add: smoothData_def smoothOuter.simps smoothInner.simps)

text \<open>
  Claim C7. For every window size \<open>w > 0\<close> (every odd one in particular)
  \<^verbatim>\<open>smoothData\<close> returns a sequence of the same length as its input. For a sequence
  of finite values its \<open>i\<close>-th element is the arithmetic mean of the input elements at
  the positions \<open>j\<close> inside the sequence with \<open>|j - i| \<le> floor (w / 2)\<close>: the window is
  cut at the two ends, nothing wraps around and nothing is padded. For any sequence of
  numbers it is that mean in JavaScript arithmetic: the elements of the window, added
  from left to right, over their number. On \<open>[1,2,3,4,5]\<close> with window 3 the result is
  \<open>[1.5, 2, 3, 4, 4.5]\<close>, and a sequence of one element is returned unchanged.
\<close>

theorem smoothData_moving_average:
  assumes "0 < w"
  shows "length (smoothData ds w) = length ds \<and>
    (\<forall>i<length ds. smoothData ds w ! i =
       jdiv (foldl jadd (Fin 0)
               (map (\<lambda>k. ds ! nat k) (windowIndices (length ds) i (w div 2))))
         (Fin (real (length (windowIndices (length ds) i (w div 2)))))) \<and>
    (\<forall>i<length xs. smoothData (map Fin xs) w ! i =
       Fin ((\<Sum>j | j < length xs \<and> \<bar>int j - int i\<bar> \<le> w div 2. xs ! j)
              / real (card {j. j < length xs \<and> \<bar>int j - int i\<bar> \<le> w div 2}))) \<and>
    smoothData (map Fin [1, 2, 3, 4, 5]) 3 = map Fin [1.5, 2, 3, 4, 4.5] \<and>
    smoothData [x] w = [x]"
proof -
  from assms have h: "0 \<le> w div 2" by simp
  have "length (smoothData ds w) = length ds"
    by (rule length_smoothData)
  moreover have "\<forall>i<length ds. smoothData ds w ! i =
       jdiv (foldl jadd (Fin 0)
               (map (\<lambda>k. ds ! nat k) (windowIndices (length ds) i (w div 2))))
         (Fin (real (length (windowIndices (length ds) i (w div 2)))))"
    by (simp add: smoothData_def smoothOuter_map)
  moreover have "\<forall>i<length xs. smoothData (map Fin xs) w ! i =
       Fin ((\<Sum>j | j < length xs \<and> \<bar>int j - int i\<bar> \<le> w div 2. xs ! j)
              / real (card {j. j < length xs \<and> \<bar>int j - int i\<bar> \<le> w div 2}))"
    using smoothData_nth h by blast
  moreover note smoothData_example smoothData_singleton [OF h, of x]
  ultimately show ?thesis by blast
qed

theorem smoothData_moving_average_witness:
  "(0 :: int) < 3 \<and> length (smoothData (map Fin [1, 2, 3, 4, 5]) 3) = 5 \<and>
   smoothData [Fin 7] 3 = [Fin 7]"
  using smoothData_moving_average [of 3 "map Fin [1, 2, 3, 4, 5]" "[]" "Fin 7"]
  by simp

subsection \<open>The scene selector\<close>

lemma preProcessScenes_state:
  "snd (preProcessScenes c) =
     c\<lparr>scenes := (scenes c)\<lparr>orbits :=
        (let srt = sort_key dateFrom
                     (filter (\<lambda>orbit. fromDate \<le> dateFrom orbit \<and> dateTo orbit \<le> toDate)
                        (orbits (scenes c)))
         in if 2 \<le> length srt then [hd srt, last srt] else srt)\<rparr>\<rparr>"
proof -
  define kept where "kept =
    filter (\<lambda>orbit. fromDate \<le> dateFrom orbit \<and> dateTo orbit \<le> toDate) (orbits (scenes c))"
  define srt where "srt = sort_key dateFrom kept"
  have len: "length srt = length kept"
    by (simp add: srt_def)
  show ?thesis
  proof (cases "2 \<le> length kept")
    case True
    with len have "srt \<noteq> []" by auto
    then have "srt ! 0 = hd srt" and "srt ! (length kept - 1) = last srt"
      using len by (simp_all add: hd_conv_nth last_conv_nth)
    with True show ?thesis
      by (simp add: preProcessScenes_def Let_def kept_def [symmetric] srt_def [symmetric] len)
  next
    case False
    then show ?thesis
      by (simp add: preProcessScenes_def Let_def kept_def [symmetric] srt_def [symmetric] len)
  qed
qed

lemma preProcessScenes_value:
  "fst (preProcessScenes c) =
     (if 2 \<le> length (filter (\<lambda>orbit. fromDate \<le> dateFrom orbit \<and> dateTo orbit \<le> toDate)
                        (orbits (scenes c)))
      then Collections (snd (preProcessScenes c)) else EmptyArray)"
  by (simp add: preProcessScenes_def Let_def)

lemma sorted_hd_min:
  assumes "sorted (map f xs)" and "x \<in> set xs"
  shows "f (hd xs) \<le> f x"
  using assms by (cases xs) auto

lemma sorted_last_max:
  assumes "sorted (map f xs)" and "x \<in> set xs"
  shows "f x \<le> f (last xs)"
proof -
  from assms(2) have ne: "xs \<noteq> []" by auto
  then have xs: "xs = butlast xs @ [last xs]" by simp
  then have "sorted (map f (butlast xs) @ [f (last xs)])"
    using assms(1) by (metis list.simps(8,9) map_append)
  then have "\<forall>y\<in>set (butlast xs). f y \<le> f (last xs)"
    by (simp add: sorted_append)
  moreover from assms(2) xs have "x \<in> set (butlast xs) \<or> x = last xs"
    by (metis Un_iff empty_iff empty_set set_ConsD set_append)
  ultimately show ?thesis by auto
qed

lemma example_retained:
  "filter (\<lambda>orbit. fromDate \<le> dateFrom orbit \<and> dateTo orbit \<le> toDate)
     (orbits (scenes exampleCollections)) = [januaryOrbit 2, januaryOrbit 5, januaryOrbit 10]"
  by (simp add: exampleCollections_def januaryOrbit_def fromDate_def toDate_def msPerDay_def)

lemma example_selected:
  "preProcessScenes exampleCollections =
     (Collections \<lparr>scenes = \<lparr>orbits = [januaryOrbit 2, januaryOrbit 10]\<rparr>\<rparr>,
      \<lparr>scenes = \<lparr>orbits = [januaryOrbit 2, januaryOrbit 10]\<rparr>\<rparr>)"
  by (simp add: preProcessScenes_def Let_def exampleCollections_def januaryOrbit_def
      fromDate_def toDate_def msPerDay_def)

lemma sparse_selected:
  "preProcessScenes sparseCollections = (EmptyArray, \<lparr>scenes = \<lparr>orbits = [januaryOrbit 5]\<rparr>\<rparr>)"
  by (simp add: preProcessScenes_def Let_def sparseCollections_def januaryOrbit_def
      fromDate_def toDate_def msPerDay_def)

lemma preProcessScenes_final:
  "snd (preProcessScenes c) =
     c\<lparr>scenes := (scenes c)\<lparr>orbits :=
        (if 2 \<le> length (sortedScenes (orbits (scenes c)))
         then [hd (sortedScenes (orbits (scenes c))), last (sortedScenes (orbits (scenes c)))]
         else sortedScenes (orbits (scenes c)))\<rparr>\<rparr>"
  by (simp add: preProcessScenes_state sortedScenes_def retainedScenes_def Let_def)

lemma preProcessScenes_result:
  "fst (preProcessScenes c) =
     (if 2 \<le> length (retainedScenes (orbits (scenes c)))
      then Collections (snd (preProcessScenes c)) else EmptyArray)"
  by (simp add: preProcessScenes_value retainedScenes_def)

lemma sortedScenes_props:
  "set (sortedScenes os) = set (retainedScenes os)"
  "length (sortedScenes os) = length (retainedScenes os)"
  "sorted (map dateFrom (sortedScenes os))"
  by (simp_all add: sortedScenes_def)

lemma orbits_update_unchanged:
  "c\<lparr>scenes := (scenes c)\<lparr>orbits := n\<rparr>\<rparr> = c \<longleftrightarrow> orbits (scenes c) = n"
proof
  assume "c\<lparr>scenes := (scenes c)\<lparr>orbits := n\<rparr>\<rparr> = c"
  then have "orbits (scenes (c\<lparr>scenes := (scenes c)\<lparr>orbits := n\<rparr>\<rparr>)) = orbits (scenes c)"
    by (rule arg_cong)
  then show "orbits (scenes c) = n" by simp
next
  assume h: "orbits (scenes c) = n"
  show "c\<lparr>scenes := (scenes c)\<lparr>orbits := n\<rparr>\<rparr> = c"
    unfolding h [symmetric] by simp
qed

text \<open>
  Claim C5. For every scene collection the retained scenes are exactly those with
  \<open>dateFrom \<ge> fromDate\<close> and \<open>dateTo \<le> toDate\<close>, and they are sorted ascending by
  \<open>dateFrom\<close>. With fewer than 2 retained scenes the result is the empty array.
  Otherwise the result is the collection, whose orbits are exactly the first and the
  last scene of the sorted retained ones: two retained scenes, the first with the
  least and the second with the greatest \<open>dateFrom\<close> among the retained. For the
  orbits of January 2, 5, 10 and 20 and the window from January 1 to January 13 the
  retained scenes are those of January 2, 5 and 10 and the selected ones those of
  January 2 and 10.
\<close>

theorem preProcessScenes_selects:
  "set (retainedScenes (orbits (scenes c))) =
     {orbit \<in> set (orbits (scenes c)). dateFrom orbit \<ge> fromDate \<and> dateTo orbit \<le> toDate} \<and>
   sorted (map dateFrom (sortedScenes (orbits (scenes c)))) \<and>
   (length (retainedScenes (orbits (scenes c))) < 2
      \<longrightarrow> fst (preProcessScenes c) = EmptyArray) \<and>
   (2 \<le> length (retainedScenes (orbits (scenes c)))
      \<longrightarrow> fst (preProcessScenes c) = Collections (snd (preProcessScenes c)) \<and>
          orbits (scenes (snd (preProcessScenes c))) =
            [hd (sortedScenes (orbits (scenes c))), last (sortedScenes (orbits (scenes c)))] \<and>
          hd (sortedScenes (orbits (scenes c))) \<in> set (retainedScenes (orbits (scenes c))) \<and>
          last (sortedScenes (orbits (scenes c))) \<in> set (retainedScenes (orbits (scenes c))) \<and>
          (\<forall>orbit \<in> set (retainedScenes (orbits (scenes c))).
             dateFrom (hd (sortedScenes (orbits (scenes c)))) \<le> dateFrom orbit \<and>
             dateFrom orbit \<le> dateFrom (last (sortedScenes (orbits (scenes c)))))) \<and>
   retainedScenes (orbits (scenes exampleCollections)) =
     [januaryOrbit 2, januaryOrbit 5, januaryOrbit 10] \<and>
   fst (preProcessScenes exampleCollections) =
     Collections \<lparr>scenes = \<lparr>orbits = [januaryOrbit 2, januaryOrbit 10]\<rparr>\<rparr>"
proof -
  let ?kept = "retainedScenes (orbits (scenes c))"
  let ?srt = "sortedScenes (orbits (scenes c))"
  have a: "set ?kept =
     {orbit \<in> set (orbits (scenes c)). dateFrom orbit \<ge> fromDate \<and> dateTo orbit \<le> toDate}"
    by (auto simp: retainedScenes_def)
  have b: "sorted (map dateFrom ?srt)"
    by (rule sortedScenes_props)
  have c1: "fst (preProcessScenes c) = EmptyArray" if "length ?kept < 2"
    using that by (simp add: preProcessScenes_result)
  have c2: "fst (preProcessScenes c) = Collections (snd (preProcessScenes c)) \<and>
          orbits (scenes (snd (preProcessScenes c))) = [hd ?srt, last ?srt] \<and>
          hd ?srt \<in> set ?kept \<and> last ?srt \<in> set ?kept \<and>
          (\<forall>orbit \<in> set ?kept.
             dateFrom (hd ?srt) \<le> dateFrom orbit \<and> dateFrom orbit \<le> dateFrom (last ?srt))"
    if two: "2 \<le> length ?kept"
  proof -
    from two have ne: "?srt \<noteq> []"
      using sortedScenes_props(2) [of "orbits (scenes c)"] by auto
    have "fst (preProcessScenes c) = Collections (snd (preProcessScenes c))"
      using two by (simp add: preProcessScenes_result)
    moreover have "orbits (scenes (snd (preProcessScenes c))) = [hd ?srt, last ?srt]"
      using two by (simp add: preProcessScenes_final sortedScenes_props(2))
    moreover have "hd ?srt \<in> set ?kept" "last ?srt \<in> set ?kept"
      using ne hd_in_set [OF ne] last_in_set [OF ne] by (simp_all add: sortedScenes_props(1))
    moreover have "\<forall>orbit \<in> set ?kept.
             dateFrom (hd ?srt) \<le> dateFrom orbit \<and> dateFrom orbit \<le> dateFrom (last ?srt)"
      using sorted_hd_min [OF b] sorted_last_max [OF b] by (simp add: sortedScenes_props(1))
    ultimately show ?thesis by blast
  qed
  have d: "retainedScenes (orbits (scenes exampleCollections)) =
     [januaryOrbit 2, januaryOrbit 5, januaryOrbit 10]"
    using example_retained by (simp add: retainedScenes_def)
  have e: "fst (preProcessScenes exampleCollections) =
     Collections \<lparr>scenes = \<lparr>orbits = [januaryOrbit 2, januaryOrbit 10]\<rparr>\<rparr>"
    by (simp add: example_selected)
  have c1': "length ?kept < 2 \<longrightarrow> fst (preProcessScenes c) = EmptyArray"
    by (rule impI) (rule c1)
  have c2': "2 \<le> length ?kept \<longrightarrow>
          fst (preProcessScenes c) = Collections (snd (preProcessScenes c)) \<and>
          orbits (scenes (snd (preProcessScenes c))) = [hd ?srt, last ?srt] \<and>
          hd ?srt \<in> set ?kept \<and> last ?srt \<in> set ?kept \<and>
          (\<forall>orbit \<in> set ?kept.
             dateFrom (hd ?srt) \<le> dateFrom orbit \<and> dateFrom orbit \<le> dateFrom (last ?srt))"
    by (rule impI) (rule c2)
  show ?thesis
    by (rule conjI [OF a conjI [OF b conjI [OF c1' conjI [OF c2' conjI [OF d e]]]]])
qed

theorem preProcessScenes_selects_witness:
  "2 \<le> length (retainedScenes (orbits (scenes exampleCollections))) \<and>
   orbits (scenes (snd (preProcessScenes exampleCollections))) =
     [hd (sortedScenes (orbits (scenes exampleCollections))),
      last (sortedScenes (orbits (scenes exampleCollections)))] \<and>
   length (retainedScenes (orbits (scenes sparseCollections))) < 2 \<and>
   fst (preProcessScenes sparseCollections) = EmptyArray"
proof -
  have two: "2 \<le> length (retainedScenes (orbits (scenes exampleCollections)))"
    by (simp add: example_retained retainedScenes_def)
  have one: "length (retainedScenes (orbits (scenes sparseCollections))) < 2"
    by (simp add: retainedScenes_def sparseCollections_def januaryOrbit_def
        fromDate_def toDate_def msPerDay_def)
  note sel = preProcessScenes_selects [of exampleCollections, THEN conjunct2, THEN conjunct2,
      THEN conjunct2, THEN conjunct1, THEN mp, OF two]
  note emp = preProcessScenes_selects [of sparseCollections, THEN conjunct2, THEN conjunct2,
      THEN conjunct1, THEN mp, OF one]
  from two one sel [THEN conjunct2, THEN conjunct1] emp show ?thesis
    by (intro conjI)
qed

text \<open>
  The claim C8 says that the input object is left unchanged. In both example
  collections the call assigns a different array to \<^verbatim>\<open>collections.scenes.orbits\<close>;
  the second one takes the insufficient-data path, which returns the empty array.
\<close>

theorem preProcessScenes_mutates_counterexample:
  "snd (preProcessScenes exampleCollections) \<noteq> exampleCollections \<and>
   fst (preProcessScenes sparseCollections) = EmptyArray \<and>
   snd (preProcessScenes sparseCollections) \<noteq> sparseCollections"
proof -
  have "\<lparr>scenes = \<lparr>orbits = [januaryOrbit 2, januaryOrbit 10]\<rparr>\<rparr> \<noteq> exampleCollections"
    by (simp add: exampleCollections_def)
  moreover have "\<lparr>scenes = \<lparr>orbits = [januaryOrbit 5]\<rparr>\<rparr> \<noteq> sparseCollections"
    by (simp add: sparseCollections_def)
  ultimately show ?thesis
    by (simp only: example_selected sparse_selected fst_conv snd_conv simp_thms)
qed

text \<open>
  Claim C8, amended. \<^verbatim>\<open>preProcessScenes\<close> writes to its input, and only to
  \<^verbatim>\<open>collections.scenes.orbits\<close>: after the call that field holds the first and the
  last of the sorted retained scenes when there are at least 2 of them, and the sorted
  retained scenes on the insufficient-data path. Every other field of
  \<^verbatim>\<open>collections\<close> and of \<^verbatim>\<open>collections.scenes\<close> is as before, so the object is
  unchanged exactly when its orbits already were that list. On the insufficient-data
  path, with fewer than 2 retained scenes, the value returned is the empty array; on
  the other path it is the input object in its final state.
\<close>

theorem preProcessScenes_frame:
  "snd (preProcessScenes c) =
     c\<lparr>scenes := (scenes c)\<lparr>orbits :=
        (if 2 \<le> length (sortedScenes (orbits (scenes c)))
         then [hd (sortedScenes (orbits (scenes c))), last (sortedScenes (orbits (scenes c)))]
         else sortedScenes (orbits (scenes c)))\<rparr>\<rparr> \<and>
   collections.more (snd (preProcessScenes c)) = collections.more c \<and>
   scenes.more (scenes (snd (preProcessScenes c))) = scenes.more (scenes c) \<and>
   (snd (preProcessScenes c) = c \<longleftrightarrow>
      orbits (scenes c) =
        (if 2 \<le> length (sortedScenes (orbits (scenes c)))
         then [hd (sortedScenes (orbits (scenes c))), last (sortedScenes (orbits (scenes c)))]
         else sortedScenes (orbits (scenes c)))) \<and>
   (length (retainedScenes (orbits (scenes c))) < 2
      \<longrightarrow> fst (preProcessScenes c) = EmptyArray) \<and>
   (2 \<le> length (retainedScenes (orbits (scenes c)))
      \<longrightarrow> fst (preProcessScenes c) = Collections (snd (preProcessScenes c)))"
proof -
  let ?new = "if 2 \<le> length (sortedScenes (orbits (scenes c)))
         then [hd (sortedScenes (orbits (scenes c))), last (sortedScenes (orbits (scenes c)))]
         else sortedScenes (orbits (scenes c))"
  have f: "snd (preProcessScenes c) = c\<lparr>scenes := (scenes c)\<lparr>orbits := ?new\<rparr>\<rparr>"
    by (rule preProcessScenes_final)
  have m1: "collections.more (snd (preProcessScenes c)) = collections.more c"
    unfolding f by simp
  have m2: "scenes.more (scenes (snd (preProcessScenes c))) = scenes.more (scenes c)"
    unfolding f by simp
  have u: "snd (preProcessScenes c) = c \<longleftrightarrow> orbits (scenes c) = ?new"
    unfolding f by (rule orbits_update_unchanged)
  have r1: "length (retainedScenes (orbits (scenes c))) < 2
      \<longrightarrow> fst (preProcessScenes c) = EmptyArray"
    by (simp add: preProcessScenes_result)
  have r2: "2 \<le> length (retainedScenes (orbits (scenes c)))
      \<longrightarrow> fst (preProcessScenes c) = Collections (snd (preProcessScenes c))"
    by (simp add: preProcessScenes_result)
  show ?thesis
    by (rule conjI [OF f conjI [OF m1 conjI [OF m2 conjI [OF u conjI [OF r1 r2]]]]])
qed

theorem preProcessScenes_frame_witness:
  "length (retainedScenes (orbits (scenes sparseCollections))) < 2 \<and>
   fst (preProcessScenes sparseCollections) = EmptyArray \<and>
   snd (preProcessScenes sparseCollections) = \<lparr>scenes = \<lparr>orbits = [januaryOrbit 5]\<rparr>\<rparr> \<and>
   2 \<le> length (retainedScenes (orbits (scenes exampleCollections))) \<and>
   fst (preProcessScenes exampleCollections) =
     Collections (snd (preProcessScenes exampleCollections))"
proof -
  have one: "length (retainedScenes (orbits (scenes sparseCollections))) < 2"
    by (simp add: retainedScenes_def sparseCollections_def januaryOrbit_def
        fromDate_def toDate_def msPerDay_def)
  have two: "2 \<le> length (retainedScenes (orbits (scenes exampleCollections)))"
    by (simp add: example_retained retainedScenes_def)
  have srt: "sortedScenes (orbits (scenes sparseCollections)) = [januaryOrbit 5]"
    by (simp add: sortedScenes_def retainedScenes_def sparseCollections_def januaryOrbit_def
        fromDate_def toDate_def msPerDay_def)
  note sparse = preProcessScenes_frame [of sparseCollections]
  note full = preProcessScenes_frame [of exampleCollections]
  have e: "fst (preProcessScenes sparseCollections) = EmptyArray"
    using sparse [THEN conjunct2, THEN conjunct2, THEN conjunct2, THEN conjunct2,
        THEN conjunct1] one by (rule mp)
  have "snd (preProcessScenes sparseCollections) =
      sparseCollections\<lparr>scenes := (scenes sparseCollections)\<lparr>orbits := [januaryOrbit 5]\<rparr>\<rparr>"
    using sparse [THEN conjunct1] unfolding srt by simp
  then have s: "snd (preProcessScenes sparseCollections) =
      \<lparr>scenes = \<lparr>orbits = [januaryOrbit 5]\<rparr>\<rparr>"
    by (simp add: sparseCollections_def)
  have g: "fst (preProcessScenes exampleCollections) =
     Collections (snd (preProcessScenes exampleCollections))"
    using full [THEN conjunct2, THEN conjunct2, THEN conjunct2, THEN conjunct2,
        THEN conjunct2] two by (rule mp)
  from one e s two g show ?thesis by (intro conjI)
qed

end
